theory Spec2Isabelle
  imports Complex_Main "HOL-Library.AList"
begin

chapter \<open>Kubernetes AIOps Evidence Graph: the incident-processing pipeline\<close>

text \<open>
  A shallow embedding of the Python services the properties below are about:
  the remediation verifier, the alert normaliser, the rules engine, the hypothesis
  ranker, the blast-radius calculation, the policy client and the metrics collector.

  Conventions. A Python exception is the left injection of a sum (\<open>Inl\<close> carries the
  message); \<open>None\<close> and a missing dictionary key are \<open>None\<close> of an option type; Python
  floats are modelled by exact rationals, so a statement about a float result is a
  statement about the value the source computes in exact arithmetic. Timestamps, log
  calls and random identifiers (\<open>uuid4\<close>, \<open>datetime.now\<close>) are left out of the results.
\<close>

section \<open>Python builtins\<close>

text \<open>Values whose truthiness the source relies on: \<open>bool\<close> and \<open>int\<close>.\<close>

datatype pyval = PyBool bool | PyInt int

fun truthy :: "pyval \<Rightarrow> bool" where
  "truthy (PyBool b) = b"
| "truthy (PyInt n) = (n \<noteq> 0)"

text \<open>\<open>a or b\<close> and \<open>a and b\<close> return one of their operands.\<close>

definition py_or :: "pyval \<Rightarrow> pyval \<Rightarrow> pyval" where
  "py_or a b = (if truthy a then a else b)"

definition py_and :: "pyval \<Rightarrow> pyval \<Rightarrow> pyval" where
  "py_and a b = (if truthy a then b else a)"

text \<open>\<open>a or b\<close> on optional strings: \<open>None\<close> and the empty string are falsy.\<close>

definition py_or_str :: "string option \<Rightarrow> string option \<Rightarrow> string option" where
  "py_or_str a b = (case a of None \<Rightarrow> b | Some s \<Rightarrow> if s = [] then b else Some s)"

text \<open>\<open>d.get(k, default)\<close> on a dictionary of strings.\<close>

definition get_default :: "(string \<rightharpoonup> string) \<Rightarrow> string \<Rightarrow> string \<Rightarrow> string" where
  "get_default d k dflt = (case d k of None \<Rightarrow> dflt | Some v \<Rightarrow> v)"

text \<open>\<open>str.lower\<close> on ASCII letters.\<close>

definition lower_char :: "char \<Rightarrow> char" where
  "lower_char c = (let n = of_char c :: nat in if 65 \<le> n \<and> n \<le> 90 then char_of (n + 32) else c)"

definition lower :: "string \<Rightarrow> string" where
  "lower s = map lower_char s"

text \<open>\<open>sub in s\<close> on strings.\<close>

fun contains :: "string \<Rightarrow> string \<Rightarrow> bool" where
  "contains sub [] = (sub = [])"
| "contains sub (c # cs) = (take (length sub) (c # cs) = sub \<or> contains sub cs)"

text \<open>
  \<open>round(x, n)\<close>: to \<open>n\<close> decimals, a tie going to the even neighbour.
\<close>

definition round_half_even :: "rat \<Rightarrow> int" where
  "round_half_even x =
     (let f = \<lfloor>x\<rfloor>; d = x - of_int f
      in if d < 1 / 2 then f else if 1 / 2 < d then f + 1 else if even f then f else f + 1)"

definition py_round :: "rat \<Rightarrow> nat \<Rightarrow> rat" where
  "py_round x n = of_int (round_half_even (x * 10 ^ n)) / 10 ^ n"

text \<open>
  \<open>xs.sort(key=f, reverse=True)\<close>: descending by key, elements with equal keys
  staying in their original order.
\<close>

definition sort_desc :: "('a \<Rightarrow> rat) \<Rightarrow> 'a list \<Rightarrow> 'a list" where
  "sort_desc f xs = sort_key (\<lambda>x. - f x) xs"

section \<open>Remediation verifier (services/remediation/verifier.py)\<close>

record pod_condition =
  cond_type :: string
  cond_status :: string

record pod =
  phase :: string
  conditions :: "pod_condition list option"

text \<open>The loop of \<open>_is_pod_healthy\<close> over \<open>pod.status.conditions or []\<close>.\<close>

fun ready_conditions_true :: "pod_condition list \<Rightarrow> bool" where
  "ready_conditions_true [] = True"
| "ready_conditions_true (c # cs) =
     (if cond_type c = ''Ready'' \<and> cond_status c \<noteq> ''True'' then False
      else ready_conditions_true cs)"

definition is_pod_healthy :: "pod \<Rightarrow> bool" where
  "is_pod_healthy p =
     (if phase p \<noteq> ''Running'' then False
      else ready_conditions_true (case conditions p of None \<Rightarrow> [] | Some cs \<Rightarrow> cs))"

text \<open>
  The dictionaries the three probes return: the result keys, or the single key
  \<open>error\<close> when the probe caught an exception.
\<close>

datatype rate_probe =
  RateResult (current: "rat option") (before: "rat option") (improved: bool)
| RateError string

datatype health_probe =
  HealthResult (total: nat) (healthy: nat) (healthy_percentage: rat) (all_healthy: bool)
| HealthError string

definition is_metric_improved :: "rat option \<Rightarrow> rat option \<Rightarrow> bool" where
  "is_metric_improved cur bef =
     (case cur of None \<Rightarrow> False | Some c \<Rightarrow> (case bef of None \<Rightarrow> False | Some b \<Rightarrow> c < b))"

text \<open>
  Each probe takes the outcomes of its calls to \<open>_query_prometheus\<close>, which raises
  (\<open>Inl\<close>) or returns an optional number.
\<close>

definition check_error_rate :: "string + rat option \<Rightarrow> string + rat option \<Rightarrow> rate_probe" where
  "check_error_rate q_current q_before =
     (case q_current of Inl e \<Rightarrow> RateError e
      | Inr cur \<Rightarrow>
          (case q_before of Inl e \<Rightarrow> RateError e
           | Inr bef \<Rightarrow> RateResult cur bef (is_metric_improved cur bef)))"

definition check_restart_rate :: "string + rat option \<Rightarrow> string + rat option \<Rightarrow> rate_probe" where
  "check_restart_rate q_current q_before =
     (case q_current of Inl e \<Rightarrow> RateError e
      | Inr cur \<Rightarrow>
          (case q_before of Inl e \<Rightarrow> RateError e
           | Inr bef \<Rightarrow>
               RateResult cur bef
                 (case cur of None \<Rightarrow> False
                  | Some c \<Rightarrow> (case bef of None \<Rightarrow> False | Some b \<Rightarrow> c \<le> b))))"

text \<open>\<open>_check_pod_health\<close> takes the outcome of listing the pods.\<close>

definition check_pod_health :: "string + pod list \<Rightarrow> health_probe" where
  "check_pod_health listing =
     (case listing of Inl e \<Rightarrow> HealthError e
      | Inr pods \<Rightarrow>
          (let total = length pods;
               healthy = length (filter is_pod_healthy pods)
           in HealthResult total healthy
                (if total > 0 then of_nat healthy / of_nat total * 100 else 0)
                (healthy = total)))"

text \<open>\<open>probe.get("improved", False)\<close> and \<open>pod_health.get("healthy", False)\<close>.\<close>

fun get_improved :: "rate_probe \<Rightarrow> pyval" where
  "get_improved (RateResult c b i) = PyBool i"
| "get_improved (RateError e) = PyBool False"

fun get_healthy :: "health_probe \<Rightarrow> pyval" where
  "get_healthy (HealthResult t h p a) = PyInt (int h)"
| "get_healthy (HealthError e) = PyBool False"

record cluster_state =
  error_current :: "string + rat option"
  error_before :: "string + rat option"
  restart_current :: "string + rat option"
  restart_before :: "string + rat option"
  pod_listing :: "string + pod list"

record verification =
  success :: pyval
  metrics_improved :: pyval
  error_rate :: rate_probe
  restart_rate :: rate_probe
  pod_health :: health_probe

text \<open>
  \<open>verify\<close>. Each probe catches its own exceptions and returns a dictionary, so the
  body of the outer \<open>try\<close> does not raise and its handler is not reached.
\<close>

definition verify :: "cluster_state \<Rightarrow> verification" where
  "verify st =
     (let er = check_error_rate (error_current st) (error_before st);
          rr = check_restart_rate (restart_current st) (restart_before st);
          ph = check_pod_health (pod_listing st);
          mi = py_or (py_or (get_improved er) (get_improved rr)) (get_healthy ph);
          ok = py_and mi (get_healthy ph)
      in \<lparr>success = ok, metrics_improved = mi, error_rate = er, restart_rate = rr,
          pod_health = ph\<rparr>)"

section \<open>Alert normaliser (services/ingestion/normalizer.py)\<close>

datatype IncidentSeverity = CRITICAL | HIGH | MEDIUM | LOW | INFO

datatype IncidentSource = ALERTMANAGER | GRAFANA | PROMETHEUS | MANUAL | SYNTHETIC

definition SEVERITY_MAP :: "string \<Rightarrow> IncidentSeverity option" where
  "SEVERITY_MAP s =
     (if s = ''critical'' then Some CRITICAL
      else if s = ''high'' then Some HIGH
      else if s = ''warning'' then Some MEDIUM
      else if s = ''info'' then Some INFO
      else if s = ''low'' then Some LOW
      else if s = ''alerting'' then Some HIGH
      else if s = ''error'' then Some HIGH
      else if s = ''warn'' then Some MEDIUM
      else None)"

definition severity_of :: "(string \<rightharpoonup> string) \<Rightarrow> IncidentSeverity" where
  "severity_of labels =
     (case SEVERITY_MAP (lower (get_default labels ''severity'' ''warning'')) of
        None \<Rightarrow> MEDIUM | Some s \<Rightarrow> s)"

record alert =
  alert_labels :: "string \<rightharpoonup> string"
  alert_annotations :: "string \<rightharpoonup> string"
  alert_alertname :: "string option"

record payload =
  commonLabels :: "string \<rightharpoonup> string"
  commonAnnotations :: "string \<rightharpoonup> string"

record IncidentCreate =
  fingerprint :: string
  title :: string
  description :: string
  severity :: IncidentSeverity
  source :: IncidentSource
  cluster :: string
  namespace :: string
  service :: "string option"
  labels :: "string \<rightharpoonup> string"
  annotations :: "string \<rightharpoonup> string"

text \<open>
  \<open>_generate_fingerprint\<close>. The string that is hashed is \<open>fingerprint_key\<close>;
  \<open>hashlib.sha256(...).hexdigest()\<close> is the parameter \<open>sha256_hex\<close>.
\<close>

definition fingerprint_key :: "string \<Rightarrow> string \<Rightarrow> string \<Rightarrow> string \<Rightarrow> string" where
  "fingerprint_key src alertname ns svc = src @ '':'' @ alertname @ '':'' @ ns @ '':'' @ svc"

definition generate_fingerprint ::
  "(string \<Rightarrow> string) \<Rightarrow> string \<Rightarrow> string \<Rightarrow> string \<Rightarrow> string \<Rightarrow> string" where
  "generate_fingerprint sha256_hex src alertname ns svc =
     take 32 (sha256_hex (fingerprint_key src alertname ns svc))"

text \<open>The \<open>or\<close> chain ending in a string literal: \<open>a or ""\<close>.\<close>

definition or_empty :: "string option \<Rightarrow> string" where
  "or_empty a = (case a of None \<Rightarrow> [] | Some s \<Rightarrow> s)"

text \<open>The service component \<open>normalize_alertmanager\<close> passes: \<open>service or pod or ""\<close>.\<close>

definition alertmanager_service :: "(string \<rightharpoonup> string) \<Rightarrow> string option" where
  "alertmanager_service ls = py_or_str (py_or_str (ls ''service'') (ls ''job'')) (ls ''deployment'')"

definition alertmanager_fingerprint_service :: "(string \<rightharpoonup> string) \<Rightarrow> string" where
  "alertmanager_fingerprint_service ls =
     or_empty (py_or_str (alertmanager_service ls) (ls ''pod''))"

definition normalize_alertmanager :: "(string \<Rightarrow> string) \<Rightarrow> alert \<Rightarrow> IncidentCreate" where
  "normalize_alertmanager sha256_hex a =
     (let ls = alert_labels a;
          ans = alert_annotations a;
          alertname = get_default ls ''alertname'' ''Unknown Alert'';
          ns = get_default ls ''namespace'' ''default'';
          cl = or_empty (py_or_str (py_or_str (ls ''cluster'') (ls ''kubernetes_cluster''))
                 (Some ''default-cluster''));
          svc = alertmanager_service ls;
          pod = ls ''pod'';
          ttl = (case py_or_str pod None of Some p \<Rightarrow> alertname @ '': '' @ p
                 | None \<Rightarrow> (case py_or_str svc None of Some s \<Rightarrow> alertname @ '': '' @ s
                            | None \<Rightarrow> alertname));
          descr = or_empty (py_or_str (ans ''description'') (ans ''summary''))
      in \<lparr>fingerprint = generate_fingerprint sha256_hex ''alertmanager'' alertname ns
                          (alertmanager_fingerprint_service ls),
          title = ttl, description = descr, severity = severity_of ls,
          source = ALERTMANAGER, cluster = cl, namespace = ns, service = svc,
          labels = ls, annotations = ans\<rparr>)"

text \<open>\<open>labels.get("alertname") or alert.get("alertname", "Grafana Alert")\<close> on the merged labels.\<close>

definition grafana_alertname :: "alert \<Rightarrow> payload \<Rightarrow> string" where
  "grafana_alertname a p =
     (case py_or_str ((commonLabels p ++ alert_labels a) ''alertname'') None of
        Some n \<Rightarrow> n
      | None \<Rightarrow> (case alert_alertname a of Some n \<Rightarrow> n | None \<Rightarrow> ''Grafana Alert''))"

definition normalize_grafana :: "(string \<Rightarrow> string) \<Rightarrow> alert \<Rightarrow> payload \<Rightarrow> IncidentCreate" where
  "normalize_grafana sha256_hex a p =
     (let ls = commonLabels p ++ alert_labels a;
          ans = commonAnnotations p ++ alert_annotations a;
          alertname = grafana_alertname a p;
          ns = get_default ls ''namespace'' ''default'';
          cl = get_default ls ''cluster'' ''default-cluster'';
          svc = py_or_str (ls ''service'') (ls ''grafana_folder'');
          ttl = (case py_or_str (ans ''summary'') None of Some s \<Rightarrow> s | None \<Rightarrow> alertname);
          descr = get_default ans ''description'' []
      in \<lparr>fingerprint = generate_fingerprint sha256_hex ''grafana'' alertname ns (or_empty svc),
          title = ttl, description = descr, severity = severity_of ls,
          source = GRAFANA, cluster = cl, namespace = ns, service = svc,
          labels = ls, annotations = ans\<rparr>)"

definition normalize_prometheus :: "(string \<Rightarrow> string) \<Rightarrow> alert \<Rightarrow> IncidentCreate" where
  "normalize_prometheus sha256_hex a =
     (let ls = alert_labels a;
          ans = alert_annotations a;
          alertname = get_default ls ''alertname'' ''Prometheus Alert'';
          ns = get_default ls ''namespace'' ''default'';
          cl = get_default ls ''cluster'' ''default-cluster'';
          svc = py_or_str (ls ''service'') (ls ''instance'')
      in \<lparr>fingerprint = generate_fingerprint sha256_hex ''prometheus'' alertname ns (or_empty svc),
          title = alertname, description = get_default ans ''description'' [],
          severity = severity_of ls, source = PROMETHEUS, cluster = cl, namespace = ns,
          service = svc, labels = ls, annotations = ans\<rparr>)"

section \<open>Rules engine (services/rca/rules_engine.py)\<close>

datatype HypothesisCategory =
  RESOURCE_EXHAUSTION | BAD_DEPLOYMENT | CONFIGURATION_ERROR | DEPENDENCY_FAILURE
| INFRASTRUCTURE_ISSUE | NETWORK_ISSUE | SCALING_ISSUE | SECURITY_ISSUE
| EXTERNAL_DEPENDENCY | DATA_ISSUE | UNKNOWN

fun category_value :: "HypothesisCategory \<Rightarrow> string" where
  "category_value RESOURCE_EXHAUSTION = ''resource_exhaustion''"
| "category_value BAD_DEPLOYMENT = ''bad_deployment''"
| "category_value CONFIGURATION_ERROR = ''configuration_error''"
| "category_value DEPENDENCY_FAILURE = ''dependency_failure''"
| "category_value INFRASTRUCTURE_ISSUE = ''infrastructure_issue''"
| "category_value NETWORK_ISSUE = ''network_issue''"
| "category_value SCALING_ISSUE = ''scaling_issue''"
| "category_value SECURITY_ISSUE = ''security_issue''"
| "category_value EXTERNAL_DEPENDENCY = ''external_dependency''"
| "category_value DATA_ISSUE = ''data_issue''"
| "category_value UNKNOWN = ''unknown''"

text \<open>
  A condition of a rule: its \<open>type\<close> and the two list parameters the checker reads
  (\<open>condition.get("values", [])\<close>, \<open>condition.get("patterns", [])\<close>). The numeric
  parameters of the catalog (\<open>within_minutes\<close>, \<open>threshold\<close>, ...) are never read.
\<close>

record condition =
  cond_kind :: string
  cond_values :: "string list"
  cond_patterns :: "string list"

record rule =
  rule_id :: string
  rule_name :: string
  rule_conditions :: "condition list"
  rule_category :: HypothesisCategory
  rule_hypothesis :: string
  rule_description :: string
  confidence_base :: rat
  actions :: "string list"

definition cond :: "string \<Rightarrow> condition" where
  "cond k = \<lparr>cond_kind = k, cond_values = [], cond_patterns = []\<rparr>"

definition cond_vals :: "string \<Rightarrow> string list \<Rightarrow> condition" where
  "cond_vals k vs = \<lparr>cond_kind = k, cond_values = vs, cond_patterns = []\<rparr>"

definition cond_pats :: "string \<Rightarrow> string list \<Rightarrow> condition" where
  "cond_pats k ps = \<lparr>cond_kind = k, cond_values = [], cond_patterns = ps\<rparr>"

definition crashloop_recent_deploy :: rule where
  "crashloop_recent_deploy =
     \<lparr>rule_id = ''crashloop_recent_deploy'', rule_name = ''Bad Deployment - CrashLoop'',
      rule_conditions = [cond_vals ''waiting_reason'' [''CrashLoopBackOff''], cond ''recent_deploy''],
      rule_category = BAD_DEPLOYMENT,
      rule_hypothesis = ''Recent deployment caused application crash'',
      rule_description = ''The application started crash looping immediately after a deployment. The new code or configuration likely contains a bug that prevents startup.'',
      confidence_base = 90 / 100,
      actions = [''rollback_deployment'', ''Check application logs for startup errors'',
                 ''Review recent code changes in the deployment'']\<rparr>"

definition crashloop_no_change :: rule where
  "crashloop_no_change =
     \<lparr>rule_id = ''crashloop_no_change'', rule_name = ''Runtime Error - CrashLoop'',
      rule_conditions = [cond_vals ''waiting_reason'' [''CrashLoopBackOff''], cond ''no_recent_deploy''],
      rule_category = EXTERNAL_DEPENDENCY,
      rule_hypothesis = ''Application crashing due to external dependency or data issue'',
      rule_description = ''The application is crash looping but there were no recent deployments. This suggests an issue with external dependencies, database state, or corrupted data.'',
      confidence_base = 75 / 100,
      actions = [''restart_pod'', ''Check external service connectivity'',
                 ''Verify database connections'', ''Review application logs for dependency errors'']\<rparr>"

definition oom_killed :: rule where
  "oom_killed =
     \<lparr>rule_id = ''oom_killed'', rule_name = ''Memory Exhaustion'',
      rule_conditions = [cond_vals ''terminated_reason'' [''OOMKilled'']],
      rule_category = RESOURCE_EXHAUSTION,
      rule_hypothesis = ''Container killed due to memory limit exceeded'',
      rule_description = ''The container was terminated because it exceeded its memory limit. This could be a memory leak, insufficient limits, or a sudden spike in memory usage.'',
      confidence_base = 95 / 100,
      actions = [''Increase memory limits if appropriate'', ''Check for memory leaks in application'',
                 ''Review memory usage patterns'', ''restart_deployment'']\<rparr>"

definition oom_high_memory :: rule where
  "oom_high_memory =
     \<lparr>rule_id = ''oom_high_memory'', rule_name = ''Memory Pressure'',
      rule_conditions = [cond ''memory_usage_high''],
      rule_category = RESOURCE_EXHAUSTION,
      rule_hypothesis = ''Container approaching memory limit'',
      rule_description = ''The container is using over 90% of its memory limit and is at risk of OOMKill. Memory limits may be too low or there's a memory leak.'',
      confidence_base = 80 / 100,
      actions = [''Increase memory limits'', ''Investigate memory usage patterns'',
                 ''Check for memory leaks'']\<rparr>"

definition image_pull_failure :: rule where
  "image_pull_failure =
     \<lparr>rule_id = ''image_pull_failure'', rule_name = ''Image Pull Error'',
      rule_conditions = [cond_vals ''waiting_reason''
                           [''ImagePullBackOff'', ''ErrImagePull'', ''ImageInspectError'']],
      rule_category = CONFIGURATION_ERROR,
      rule_hypothesis = ''Failed to pull container image'',
      rule_description = ''The container cannot start because the image cannot be pulled. This could be due to incorrect image tag, registry authentication issues, or network problems.'',
      confidence_base = 95 / 100,
      actions = [''Verify image tag exists in registry'', ''Check imagePullSecrets configuration'',
                 ''Verify registry authentication'', ''Check network connectivity to registry'']\<rparr>"

definition node_failure_isolated :: rule where
  "node_failure_isolated =
     \<lparr>rule_id = ''node_failure_isolated'', rule_name = ''Node-Specific Issue'',
      rule_conditions = [cond ''multiple_pods_same_node'', cond ''node_unhealthy''],
      rule_category = INFRASTRUCTURE_ISSUE,
      rule_hypothesis = ''Failures isolated to problematic node'',
      rule_description = ''Multiple pods are failing and they're all on the same node which has unhealthy conditions. The node infrastructure is the likely root cause.'',
      confidence_base = 85 / 100,
      actions = [''cordon_node'', ''Migrate pods to healthy nodes'', ''Investigate node health'',
                 ''Check node resource usage'']\<rparr>"

definition hpa_maxed :: rule where
  "hpa_maxed =
     \<lparr>rule_id = ''hpa_maxed'', rule_name = ''Scaling Limit Reached'',
      rule_conditions = [cond ''hpa_at_max'', cond ''latency_high''],
      rule_category = SCALING_ISSUE,
      rule_hypothesis = ''HPA at maximum capacity with high latency'',
      rule_description = ''The Horizontal Pod Autoscaler is at maximum replicas but latency remains high. The service needs more capacity than currently configured.'',
      confidence_base = 80 / 100,
      actions = [''scale_replicas'', ''Increase HPA max replicas'', ''Review resource requests/limits'',
                 ''Consider adding nodes to cluster'']\<rparr>"

definition readiness_probe_failing :: rule where
  "readiness_probe_failing =
     \<lparr>rule_id = ''readiness_probe_failing'', rule_name = ''Readiness Probe Failure'',
      rule_conditions = [cond ''pod_not_ready'', cond ''readiness_probe_failing''],
      rule_category = DEPENDENCY_FAILURE,
      rule_hypothesis = ''Pods failing readiness probe'',
      rule_description = ''Pods are not becoming ready because the readiness probe is failing. This usually indicates the application cannot serve traffic due to dependency issues.'',
      confidence_base = 75 / 100,
      actions = [''Check application health endpoints'', ''Verify database connections'',
                 ''Check external service dependencies'', ''Review probe configuration'']\<rparr>"

definition config_error :: rule where
  "config_error =
     \<lparr>rule_id = ''config_error'', rule_name = ''Configuration Error'',
      rule_conditions = [cond_vals ''terminated_reason''
                           [''ContainerCannotRun'', ''CreateContainerConfigError'']],
      rule_category = CONFIGURATION_ERROR,
      rule_hypothesis = ''Container configuration error'',
      rule_description = ''The container cannot run due to a configuration issue such as missing volumes, invalid environment variables, or security context problems.'',
      confidence_base = 90 / 100,
      actions = [''Check ConfigMap and Secret references'', ''Verify volume mounts'',
                 ''Review container security context'', ''Check environment variable configurations'']\<rparr>"

definition network_error :: rule where
  "network_error =
     \<lparr>rule_id = ''network_error'', rule_name = ''Network Connectivity Issue'',
      rule_conditions = [cond_pats ''log_pattern'' [''connection refused'', ''connection reset'', ''timeout''],
                         cond ''network_errors_high''],
      rule_category = NETWORK_ISSUE,
      rule_hypothesis = ''Network connectivity problems'',
      rule_description = ''The application is experiencing network connectivity issues. This could be DNS problems, service mesh issues, or network policy restrictions.'',
      confidence_base = 70 / 100,
      actions = [''Check DNS resolution'', ''Verify network policies'',
                 ''Check service mesh configuration'', ''Test connectivity to external services'']\<rparr>"

definition DIAGNOSIS_RULES :: "rule list" where
  "DIAGNOSIS_RULES =
     [crashloop_recent_deploy, crashloop_no_change, oom_killed, oom_high_memory,
      image_pull_failure, node_failure_isolated, hpa_maxed, readiness_probe_failing,
      config_error, network_error]"

text \<open>
  Evidence items. The \<open>data\<close> dictionary is a record of the keys the engine reads,
  with the types the collectors write; \<open>None\<close> is a missing key. A node's
  \<open>conditions\<close> maps a condition type to the \<open>status\<close> entry of its dictionary.
\<close>

type_synonym node_conditions = "(string \<times> string option) list"

record evidence_data =
  d_waiting_reason :: "string option"
  d_terminated_reason :: "string option"
  d_restart_count :: "int option"
  d_is_recent_change :: bool
  d_image_changed :: bool
  d_patterns_found :: "string list"
  d_error_count :: "int option"
  d_query_name :: "string option"
  d_is_anomalous :: bool
  d_current_value :: "rat option"
  d_name :: "string option"
  d_conditions :: "node_conditions option"

text \<open>The empty dictionary, the default of \<open>ev.get("data", {})\<close>.\<close>

definition empty_data :: evidence_data where
  "empty_data =
     \<lparr>d_waiting_reason = None, d_terminated_reason = None, d_restart_count = None,
      d_is_recent_change = False, d_image_changed = False, d_patterns_found = [],
      d_error_count = None, d_query_name = None, d_is_anomalous = False,
      d_current_value = None, d_name = None, d_conditions = None\<rparr>"

record evidence =
  ev_id :: "string option"
  evidence_type :: "string option"
  ev_data :: evidence_data

record signals =
  waiting_reasons :: "string set"
  terminated_reasons :: "string set"
  log_patterns :: "string set"
  has_recent_deploy :: bool
  has_image_change :: bool
  memory_usage_high :: bool
  cpu_throttling :: bool
  hpa_at_max :: bool
  node_issues :: "(string option \<times> node_conditions) list"
  restart_count :: int
  error_count :: int
  latency_high :: bool
  evidence_ids :: "string option list"

definition init_signals :: signals where
  "init_signals =
     \<lparr>waiting_reasons = {}, terminated_reasons = {}, log_patterns = {},
      has_recent_deploy = False, has_image_change = False, memory_usage_high = False,
      cpu_throttling = False, hpa_at_max = False, node_issues = [], restart_count = 0,
      error_count = 0, latency_high = False, evidence_ids = []\<rparr>"

definition process_pod_evidence :: "evidence_data \<Rightarrow> signals \<Rightarrow> signals" where
  "process_pod_evidence d s =
     (let s1 = (case py_or_str (d_waiting_reason d) None of
                  Some w \<Rightarrow> s\<lparr>waiting_reasons := insert w (waiting_reasons s)\<rparr> | None \<Rightarrow> s);
          s2 = (case py_or_str (d_terminated_reason d) None of
                  Some t \<Rightarrow> s1\<lparr>terminated_reasons := insert t (terminated_reasons s1)\<rparr>
                | None \<Rightarrow> s1)
      in s2\<lparr>restart_count :=
               max (restart_count s2) (case d_restart_count d of None \<Rightarrow> 0 | Some n \<Rightarrow> n)\<rparr>)"

definition process_deploy_evidence :: "evidence_data \<Rightarrow> signals \<Rightarrow> signals" where
  "process_deploy_evidence d s = (if d_is_recent_change d then s\<lparr>has_recent_deploy := True\<rparr> else s)"

definition process_image_evidence :: "evidence_data \<Rightarrow> signals \<Rightarrow> signals" where
  "process_image_evidence d s = (if d_image_changed d then s\<lparr>has_image_change := True\<rparr> else s)"

definition process_log_evidence :: "evidence_data \<Rightarrow> signals \<Rightarrow> signals" where
  "process_log_evidence d s =
     (let s1 = foldl (\<lambda>acc p. acc\<lparr>log_patterns := insert p (log_patterns acc)\<rparr>) s
                 (d_patterns_found d)
      in s1\<lparr>error_count :=
               error_count s1 + (case d_error_count d of None \<Rightarrow> 0 | Some n \<Rightarrow> n)\<rparr>)"

definition process_metric_evidence :: "evidence_data \<Rightarrow> signals \<Rightarrow> signals" where
  "process_metric_evidence d s =
     (let query_name = (case d_query_name d of None \<Rightarrow> [] | Some q \<Rightarrow> q);
          s1 = (if contains ''memory'' query_name \<and> d_is_anomalous d
                then (case d_current_value d of
                        Some c \<Rightarrow> if c \<noteq> 0 \<and> c > 90 then s\<lparr>memory_usage_high := True\<rparr> else s
                      | None \<Rightarrow> s)
                else s);
          s2 = (if contains ''hpa'' query_name \<and> contains ''max'' query_name
                   \<and> d_current_value d = Some 1
                then s1\<lparr>hpa_at_max := True\<rparr> else s1)
      in if contains ''latency'' query_name
            \<and> (case d_current_value d of None \<Rightarrow> 0 | Some c \<Rightarrow> c) > 1
         then s2\<lparr>latency_high := True\<rparr> else s2)"

definition process_node_evidence :: "evidence_data \<Rightarrow> signals \<Rightarrow> signals" where
  "process_node_evidence d s =
     (let conds = (case d_conditions d of None \<Rightarrow> [] | Some cs \<Rightarrow> cs);
          ready_status = (case map_of conds ''Ready'' of None \<Rightarrow> None | Some st \<Rightarrow> st)
      in if ready_status \<noteq> Some ''True''
         then s\<lparr>node_issues := AList.update (d_name d) conds (node_issues s)\<rparr>
         else s)"

definition process_evidence_item :: "evidence \<Rightarrow> signals \<Rightarrow> signals" where
  "process_evidence_item ev s =
     (let s1 = s\<lparr>evidence_ids := evidence_ids s @ [ev_id ev]\<rparr>;
          t = evidence_type ev;
          d = ev_data ev
      in if t = Some ''kubernetes_pod'' then process_pod_evidence d s1
         else if t = Some ''deploy_change'' then process_deploy_evidence d s1
         else if t = Some ''image_change'' then process_image_evidence d s1
         else if t = Some ''log_signal'' then process_log_evidence d s1
         else if t = Some ''metric_signal'' then process_metric_evidence d s1
         else if t = Some ''kubernetes_node'' then process_node_evidence d s1
         else s1)"

definition extract_signals :: "evidence list \<Rightarrow> signals" where
  "extract_signals evs = foldl (\<lambda>s ev. process_evidence_item ev s) init_signals evs"

text \<open>\<open>_check_condition\<close> returns the pair \<open>(matched, strength)\<close>.\<close>

definition check_condition :: "condition \<Rightarrow> signals \<Rightarrow> bool \<times> rat" where
  "check_condition c s =
     (let k = cond_kind c;
          hit = (\<lambda>b st. if b then (True, st) else (False, 0))
      in if k = ''waiting_reason'' then hit (waiting_reasons s \<inter> set (cond_values c) \<noteq> {}) (90 / 100)
         else if k = ''terminated_reason''
           then hit (terminated_reasons s \<inter> set (cond_values c) \<noteq> {}) (90 / 100)
         else if k = ''recent_deploy'' then hit (has_recent_deploy s) (80 / 100)
         else if k = ''no_recent_deploy'' then hit (\<not> has_recent_deploy s) (60 / 100)
         else if k = ''memory_usage_high'' then hit (memory_usage_high s) (85 / 100)
         else if k = ''hpa_at_max'' then hit (hpa_at_max s) (75 / 100)
         else if k = ''latency_high'' then hit (latency_high s) (70 / 100)
         else if k = ''log_pattern''
           then hit (log_patterns s \<inter> set (cond_patterns c) \<noteq> {}) (65 / 100)
         else if k = ''node_unhealthy'' then hit (node_issues s \<noteq> []) (80 / 100)
         else (False, 0))"

record match_result =
  matched :: bool
  match_count :: nat
  mr_evidence_ids :: "string option list"
  evidence_strength :: rat

text \<open>The loop of \<open>_match_rule\<close>: the count and the summed strength of the matches.\<close>

fun match_loop :: "condition list \<Rightarrow> signals \<Rightarrow> nat \<times> rat \<Rightarrow> nat \<times> rat" where
  "match_loop [] s acc = acc"
| "match_loop (c # cs) s (n, str) =
     (let r = check_condition c s
      in if fst r then match_loop cs s (n + 1, str + snd r) else match_loop cs s (n, str))"

definition match_rule :: "rule \<Rightarrow> signals \<Rightarrow> match_result" where
  "match_rule r s =
     (let total_conditions = length (rule_conditions r);
          res = match_loop (rule_conditions r) s (0, 0)
      in \<lparr>matched = (fst res = total_conditions \<and> total_conditions > 0),
          match_count = fst res,
          mr_evidence_ids = take 5 (evidence_ids s),
          evidence_strength = snd res / of_nat (max total_conditions 1)\<rparr>)"

definition calculate_confidence :: "rat \<Rightarrow> nat \<Rightarrow> rat \<Rightarrow> rat" where
  "calculate_confidence base_confidence mc strength =
     (let c = base_confidence * (6 / 10) + strength * (4 / 10);
          c' = (if mc > 2 then min (c * (11 / 10)) (99 / 100) else c)
      in py_round c' 3)"

text \<open>
  A hypothesis dictionary. The four keys the ranker reads with \<open>get\<close> are optional;
  \<open>final_score\<close> is set by the ranker only.
\<close>

record hypothesis =
  incident_id :: string
  category :: "string option"
  h_title :: string
  h_description :: string
  confidence :: "rat option"
  rank :: int
  supporting_evidence_ids :: "string option list"
  recommended_actions :: "string list"
  generated_by :: string
  h_rule_id :: string
  support_count :: "int option"
  signal_strength :: "rat option"
  final_score :: "rat option"

definition create_hypothesis :: "string \<Rightarrow> rule \<Rightarrow> match_result \<Rightarrow> hypothesis" where
  "create_hypothesis inc r m =
     \<lparr>incident_id = inc,
      category = Some (category_value (rule_category r)),
      h_title = rule_name r,
      h_description = rule_description r,
      confidence = Some (calculate_confidence (confidence_base r) (match_count m)
                           (evidence_strength m)),
      rank = 0,
      supporting_evidence_ids = mr_evidence_ids m,
      recommended_actions = actions r,
      generated_by = ''rules_engine'',
      h_rule_id = rule_id r,
      support_count = Some (int (match_count m)),
      signal_strength = Some (evidence_strength m),
      final_score = None\<rparr>"

definition generic_actions :: "string list" where
  "generic_actions =
     [''Review application logs'', ''Check recent deployments'',
      ''Verify external dependencies'', ''Escalate to engineering team'']"

definition create_unknown_hypothesis :: "string \<Rightarrow> signals \<Rightarrow> hypothesis" where
  "create_unknown_hypothesis inc s =
     \<lparr>incident_id = inc,
      category = Some (category_value UNKNOWN),
      h_title = ''Unknown Issue'',
      h_description = ''No specific pattern matched. Manual investigation required.'',
      confidence = Some (3 / 10),
      rank = 1,
      supporting_evidence_ids = take 5 (evidence_ids s),
      recommended_actions = generic_actions,
      generated_by = ''rules_engine'',
      h_rule_id = ''unknown'',
      support_count = Some 0,
      signal_strength = Some 0,
      final_score = None\<rparr>"

text \<open>The loop of \<open>generate_hypotheses\<close> over the rules, in catalog order.\<close>

fun fire_rules :: "string \<Rightarrow> rule list \<Rightarrow> signals \<Rightarrow> hypothesis list" where
  "fire_rules inc [] s = []"
| "fire_rules inc (r # rs) s =
     (let m = match_rule r s
      in if matched m then create_hypothesis inc r m # fire_rules inc rs s
         else fire_rules inc rs s)"

text \<open>
  The sort key \<open>x["confidence"]\<close>; every hypothesis sorted here was built by
  \<open>create_hypothesis\<close>, which sets the key.
\<close>

definition confidence_key :: "hypothesis \<Rightarrow> rat" where
  "confidence_key h = (case confidence h of Some c \<Rightarrow> c | None \<Rightarrow> 0)"

definition generate_hypotheses_from :: "rule list \<Rightarrow> string \<Rightarrow> evidence list \<Rightarrow> hypothesis list" where
  "generate_hypotheses_from rules inc evs =
     (let s = extract_signals evs;
          hs = sort_desc confidence_key (fire_rules inc rules s)
      in if hs = [] then [create_unknown_hypothesis inc s] else hs)"

definition generate_hypotheses :: "string \<Rightarrow> evidence list \<Rightarrow> hypothesis list" where
  "generate_hypotheses inc evs = generate_hypotheses_from DIAGNOSIS_RULES inc evs"

section \<open>Hypothesis ranker (services/rca/hypothesis_ranker.py)\<close>








section \<open>Blast radius (services/remediation/orchestrator.py)\<close>

record settings =
  kubeconfig :: "string option"
  app_env :: string
  remediation_max_blast_radius :: rat
  max_metric_points :: int

record incident =
  inc_namespace :: string
  inc_service :: "string option"

text \<open>
  The outcome of \<open>read_namespaced_deployment\<close>: the deployment's \<open>spec.replicas\<close>,
  an \<open>ApiException\<close>, or any other exception.
\<close>

datatype deploy_read = Deployment "int option" | ApiException string | OtherException string

text \<open>The returned dictionary: the full result, or the one built by the handler.\<close>

datatype blast_radius =
  BlastRadius (score: rat) (affected_pods: int) (affected_deployments: int)
    (environment: string) (environment_multiplier: rat) (is_acceptable: bool)
| BlastFailure (score: rat) (error: string) (is_acceptable: bool)

definition env_multiplier :: "string \<Rightarrow> rat option" where
  "env_multiplier e =
     (if e = ''dev'' then Some 1
      else if e = ''staging'' then Some 2
      else if e = ''uat'' then Some (25 / 10)
      else if e = ''prod'' then Some 5
      else None)"

definition critical_namespaces :: "string set" where
  "critical_namespaces = {''default'', ''platform'', ''core-services''}"

text \<open>
  The part of \<open>calculate_blast_radius\<close> after the cluster query, from the two counts.
\<close>

definition blast_result :: "settings \<Rightarrow> string \<Rightarrow> int \<Rightarrow> int \<Rightarrow> blast_radius" where
  "blast_result cfg ns pods deployments =
     (let env = lower (app_env cfg);
          multiplier = (case env_multiplier env of None \<Rightarrow> 3 | Some m \<Rightarrow> m);
          base0 = of_int (pods * 5 + deployments * 10);
          base_score = (if ns \<in> critical_namespaces then base0 * (15 / 10) else base0);
          final_score = min (base_score * multiplier) 100
      in BlastRadius (py_round final_score 2) pods deployments env multiplier
           (final_score < remediation_max_blast_radius cfg))"

text \<open>
  \<open>calculate_blast_radius\<close>. \<open>config_load\<close> is the outcome of loading the cluster
  configuration (\<open>Some e\<close>: it raised \<open>e\<close>); \<open>rd\<close> is the outcome of reading the
  deployment, consulted only when the incident names a service.
\<close>

definition calculate_blast_radius ::
  "settings \<Rightarrow> incident \<Rightarrow> string option \<Rightarrow> deploy_read \<Rightarrow> blast_radius" where
  "calculate_blast_radius cfg inc config_load rd =
     (case config_load of
        Some e \<Rightarrow> BlastFailure 100 e False
      | None \<Rightarrow>
          (case py_or_str (inc_service inc) None of
             None \<Rightarrow> blast_result cfg (inc_namespace inc) 0 0
           | Some service_name \<Rightarrow>
               (case rd of
                  Deployment replicas \<Rightarrow>
                    blast_result cfg (inc_namespace inc)
                      (case replicas of None \<Rightarrow> 1 | Some n \<Rightarrow> if n = 0 then 1 else n) 1
                | ApiException e \<Rightarrow> blast_result cfg (inc_namespace inc) 0 0
                | OtherException e \<Rightarrow> BlastFailure 100 e False)))"

section \<open>Policy client (services/policy/opa_client.py)\<close>

text \<open>Parsed JSON; an object is the association list of its members.\<close>

datatype json =
  JNull | JBool bool | JNum rat | JStr string | JArr "json list" | JObj "(string \<times> json) list"

fun json_truthy :: "json \<Rightarrow> bool" where
  "json_truthy JNull = False"
| "json_truthy (JBool b) = b"
| "json_truthy (JNum n) = (n \<noteq> 0)"
| "json_truthy (JStr s) = (s \<noteq> [])"
| "json_truthy (JArr xs) = (xs \<noteq> [])"
| "json_truthy (JObj kvs) = (kvs \<noteq> [])"

text \<open>
  The outcome of the POST: the request failed, or a response arrived with a status
  code and a body that parses as JSON (\<open>Some\<close>) or does not (\<open>None\<close>).
\<close>

datatype http_outcome = RequestError string | HttpResponse nat "json option"

text \<open>\<open>d.get(k, default)\<close>; on a value that is no dictionary it raises.\<close>

definition json_get :: "json \<Rightarrow> string \<Rightarrow> json \<Rightarrow> string + json" where
  "json_get d k dflt =
     (case d of
        JObj kvs \<Rightarrow> Inr (case map_of kvs k of None \<Rightarrow> dflt | Some v \<Rightarrow> v)
      | _ \<Rightarrow> Inl ''AttributeError: object has no attribute get'')"

definition query_opa :: "http_outcome \<Rightarrow> string + json" where
  "query_opa outcome =
     (case outcome of
        RequestError e \<Rightarrow> Inl e
      | HttpResponse status_code body \<Rightarrow>
          if \<not> (200 \<le> status_code \<and> status_code < 300) then Inl ''HTTPStatusError''
          else (case body of
                  None \<Rightarrow> Inl ''JSONDecodeError''
                | Some data \<Rightarrow> json_get data ''result'' (JObj [])))"

text \<open>\<open>"; ".join(xs)\<close> on a list of strings.\<close>

fun join_strings :: "string list \<Rightarrow> string" where
  "join_strings [] = []"
| "join_strings [x] = x"
| "join_strings (x # y # ys) = x @ ''; '' @ join_strings (y # ys)"

text \<open>The items \<open>join\<close> iterates over, each of which has to be a string.\<close>

fun as_string :: "json \<Rightarrow> string option" where
  "as_string (JStr s) = Some s"
| "as_string _ = None"

definition join_json :: "json \<Rightarrow> string + string" where
  "join_json v =
     (case v of
        JArr xs \<Rightarrow>
          if list_all (\<lambda>x. as_string x \<noteq> None) xs
          then Inr (join_strings (map (\<lambda>x. case as_string x of Some s \<Rightarrow> s | None \<Rightarrow> []) xs))
          else Inl ''TypeError: sequence item: expected str instance''
      | JStr s \<Rightarrow> Inr (join_strings (map (\<lambda>c. [c]) s))
      | JObj kvs \<Rightarrow> Inr (join_strings (map fst kvs))
      | _ \<Rightarrow> Inl ''TypeError: can only join an iterable'')"

definition build_reason :: "json \<Rightarrow> json \<Rightarrow> string + string" where
  "build_reason allow_v deny_v =
     (if json_truthy allow_v then Inr ''allowed''
      else if json_truthy deny_v then join_json deny_v
      else Inr ''policy denied'')"

record decision =
  allow :: json
  requires_approval :: json
  deny_reasons :: json
  reason :: string

text \<open>The body of the \<open>try\<close> block: an exception raised inside it is \<open>Inl\<close>.\<close>

definition evaluate_body :: "http_outcome \<Rightarrow> string + decision" where
  "evaluate_body outcome =
     (case query_opa outcome of
        Inl e \<Rightarrow> Inl e
      | Inr result \<Rightarrow>
          (case json_get result ''allow'' (JBool False) of
             Inl e \<Rightarrow> Inl e
           | Inr a \<Rightarrow>
               (case json_get result ''requires_approval'' (JBool True) of
                  Inl e \<Rightarrow> Inl e
                | Inr ra \<Rightarrow>
                    (case json_get result ''deny'' (JArr []) of
                       Inl e \<Rightarrow> Inl e
                     | Inr dr \<Rightarrow>
                         (case build_reason a dr of
                            Inl e \<Rightarrow> Inl e
                          | Inr rsn \<Rightarrow>
                              Inr \<lparr>allow = a, requires_approval = ra, deny_reasons = dr,
                                   reason = rsn\<rparr>)))))"

text \<open>The handler \<open>except Exception as e\<close>: deny by default.\<close>

definition fail_closed :: "string \<Rightarrow> decision" where
  "fail_closed e =
     \<lparr>allow = JBool False, requires_approval = JBool True,
      deny_reasons = JArr [JStr (''Policy evaluation error: '' @ e)],
      reason = ''Policy evaluation error: '' @ e\<rparr>"

definition evaluate_remediation :: "http_outcome \<Rightarrow> decision" where
  "evaluate_remediation outcome =
     (case evaluate_body outcome of Inl e \<Rightarrow> fail_closed e | Inr d \<Rightarrow> d)"

text \<open>The three failures of the policy query: no response, a status outside 2xx, a body that is not JSON.\<close>

fun query_failed :: "http_outcome \<Rightarrow> bool" where
  "query_failed (RequestError e) = True"
| "query_failed (HttpResponse status_code body) =
     (\<not> (200 \<le> status_code \<and> status_code < 300) \<or> body = None)"

section \<open>Metrics collector (services/collectors/metrics_collector.py)\<close>

datatype pyfloat = Finite rat | PosInf | NegInf | NaN

text \<open>\<open>a < b\<close> on floats; every comparison with NaN is false.\<close>

fun float_less :: "pyfloat \<Rightarrow> pyfloat \<Rightarrow> bool" where
  "float_less NaN _ = False"
| "float_less _ NaN = False"
| "float_less (Finite a) (Finite b) = (a < b)"
| "float_less NegInf NegInf = False"
| "float_less NegInf _ = True"
| "float_less _ NegInf = False"
| "float_less PosInf _ = False"
| "float_less _ PosInf = True"

record metric_value =
  timestamp :: rat
  mv_value :: pyfloat
  mv_labels :: "(string \<times> string) list"

record series =
  metric :: "(string \<times> string) list"
  series_values :: "(rat \<times> string) list"

text \<open>
  \<open>_parse_metric_value\<close>. \<open>to_float\<close> is the builtin \<open>float\<close> on the sample's
  string, \<open>None\<close> when it raises \<open>ValueError\<close> or \<open>TypeError\<close>.
\<close>

definition parse_metric_value ::
  "(string \<Rightarrow> pyfloat option) \<Rightarrow> rat \<Rightarrow> string \<Rightarrow> (string \<times> string) list \<Rightarrow> metric_value option" where
  "parse_metric_value to_float ts val lbls =
     (case to_float val of
        None \<Rightarrow> None
      | Some numeric_val \<Rightarrow>
          if numeric_val \<noteq> PosInf \<and> numeric_val \<noteq> NegInf
          then Some \<lparr>timestamp = ts, mv_value = numeric_val, mv_labels = lbls\<rparr>
          else None)"

text \<open>The two nested loops of \<open>_process_results\<close>, then the sort by timestamp.\<close>

definition parse_series :: "(string \<Rightarrow> pyfloat option) \<Rightarrow> series \<Rightarrow> metric_value list" where
  "parse_series to_float r =
     List.map_filter (\<lambda>(ts, val). parse_metric_value to_float ts val (metric r)) (series_values r)"

definition merged_values :: "(string \<Rightarrow> pyfloat option) \<Rightarrow> series list \<Rightarrow> metric_value list" where
  "merged_values to_float results = sort_key timestamp (concat (map (parse_series to_float) results))"

text \<open>\<open>xs[::k]\<close> for a positive \<open>k\<close>: the elements at the indices \<open>0, k, 2k, ...\<close>\<close>

fun stride :: "nat \<Rightarrow> 'a list \<Rightarrow> 'a list" where
  "stride k [] = []"
| "stride k (x # xs) = x # stride k (drop (k - 1) xs)"

text \<open>\<open>xs[::step]\<close> for any integer: zero raises, a negative step walks from the end.\<close>

definition slice_step :: "int \<Rightarrow> 'a list \<Rightarrow> string + 'a list" where
  "slice_step step xs =
     (if step = 0 then Inl ''ValueError: slice step cannot be zero''
      else if step > 0 then Inr (stride (nat step) xs)
      else Inr (stride (nat (- step)) (rev xs)))"

text \<open>The decimation step; \<open>//\<close> by zero raises.\<close>

definition decimate :: "int \<Rightarrow> 'a list \<Rightarrow> string + 'a list" where
  "decimate max_points all_values =
     (if int (length all_values) > max_points
      then (if max_points = 0 then Inl ''ZeroDivisionError''
            else slice_step (int (length all_values) div max_points) all_values)
      else Inr all_values)"

record stats =
  st_values :: "metric_value list"
  current_value :: "pyfloat option"
  max_value :: "pyfloat option"
  min_value :: "pyfloat option"
  avg_value :: "pyfloat option"

text \<open>\<open>max\<close> and \<open>min\<close> keep the first extremal item; \<open>sum\<close> starts from zero.\<close>

definition float_max :: "pyfloat \<Rightarrow> pyfloat list \<Rightarrow> pyfloat" where
  "float_max x xs = foldl (\<lambda>m y. if float_less m y then y else m) x xs"

definition float_min :: "pyfloat \<Rightarrow> pyfloat list \<Rightarrow> pyfloat" where
  "float_min x xs = foldl (\<lambda>m y. if float_less y m then y else m) x xs"

fun float_add :: "pyfloat \<Rightarrow> pyfloat \<Rightarrow> pyfloat" where
  "float_add (Finite a) (Finite b) = Finite (a + b)"
| "float_add NaN _ = NaN"
| "float_add _ NaN = NaN"
| "float_add PosInf NegInf = NaN"
| "float_add NegInf PosInf = NaN"
| "float_add PosInf _ = PosInf"
| "float_add _ PosInf = PosInf"
| "float_add NegInf _ = NegInf"
| "float_add _ NegInf = NegInf"

fun float_div_nat :: "pyfloat \<Rightarrow> nat \<Rightarrow> pyfloat" where
  "float_div_nat (Finite a) n = Finite (a / of_nat n)"
| "float_div_nat x n = x"

definition calculate_stats :: "metric_value list \<Rightarrow> stats" where
  "calculate_stats all_values =
     (let numeric_values = map mv_value all_values
      in \<lparr>st_values = drop (length all_values - 50) all_values,
          current_value = (if numeric_values = [] then None else Some (last numeric_values)),
          max_value = (case numeric_values of [] \<Rightarrow> None | x # xs \<Rightarrow> Some (float_max x xs)),
          min_value = (case numeric_values of [] \<Rightarrow> None | x # xs \<Rightarrow> Some (float_min x xs)),
          avg_value = (if numeric_values = [] then None
                       else Some (float_div_nat (foldl float_add (Finite 0) numeric_values)
                                    (length numeric_values)))\<rparr>)"

definition process_results ::
  "(string \<Rightarrow> pyfloat option) \<Rightarrow> int \<Rightarrow> series list \<Rightarrow> string + stats" where
  "process_results to_float max_points results =
     (case decimate max_points (merged_values to_float results) of
        Inl e \<Rightarrow> Inl e
      | Inr all_values \<Rightarrow> Inr (calculate_stats all_values))"

chapter \<open>Properties\<close>

section \<open>Remediation verifier\<close>

text \<open>
  What \<open>verify\<close> decides when the pods could be listed: \<open>success\<close> is truthy exactly
  when at least one listed pod is healthy, since the flag read from the pod probe is the
  count under the key \<open>healthy\<close>.
\<close>

lemma verify_success_truthy:
  "pod_listing st = Inr pods \<Longrightarrow>
   truthy (success (verify st)) = (\<exists>p \<in> set pods. is_pod_healthy p)"
  by (auto simp: verify_def Let_def check_pod_health_def py_and_def py_or_def filter_empty_conv)

lemma verify_metrics_improved_truthy:
  "pod_listing st = Inr pods \<Longrightarrow>
   truthy (metrics_improved (verify st)) =
     (truthy (get_improved (error_rate (verify st)))
      \<or> truthy (get_improved (restart_rate (verify st)))
      \<or> (\<exists>p \<in> set pods. is_pod_healthy p))"
  by (auto simp: verify_def Let_def check_pod_health_def py_and_def py_or_def filter_empty_conv)

text \<open>
  Claim C1 says that \<open>success\<close> is false whenever a listed pod is not Running and Ready.
  The source at that input: two pods are listed, one Running and Ready, one Pending,
  and neither rate probe reports an improvement. \<open>verify\<close> returns \<open>success = 1\<close> and
  \<open>metrics_improved = 1\<close> (the healthy count), although \<open>all_healthy\<close> is false.
\<close>

theorem verify_succeeds_with_unhealthy_pod:
  "success (verify \<lparr>error_current = Inr None, error_before = Inr None,
      restart_current = Inr None, restart_before = Inr None,
      pod_listing = Inr [\<lparr>phase = ''Running'',
                           conditions = Some [\<lparr>cond_type = ''Ready'', cond_status = ''True''\<rparr>]\<rparr>,
                         \<lparr>phase = ''Pending'', conditions = None\<rparr>]\<rparr>) = PyInt 1
   \<and> metrics_improved (verify \<lparr>error_current = Inr None, error_before = Inr None,
      restart_current = Inr None, restart_before = Inr None,
      pod_listing = Inr [\<lparr>phase = ''Running'',
                           conditions = Some [\<lparr>cond_type = ''Ready'', cond_status = ''True''\<rparr>]\<rparr>,
                         \<lparr>phase = ''Pending'', conditions = None\<rparr>]\<rparr>) = PyInt 1
   \<and> all_healthy (pod_health (verify \<lparr>error_current = Inr None, error_before = Inr None,
      restart_current = Inr None, restart_before = Inr None,
      pod_listing = Inr [\<lparr>phase = ''Running'',
                           conditions = Some [\<lparr>cond_type = ''Ready'', cond_status = ''True''\<rparr>]\<rparr>,
                         \<lparr>phase = ''Pending'', conditions = None\<rparr>]\<rparr>)) = False"
  by (simp add: verify_def Let_def check_pod_health_def check_error_rate_def
      check_restart_rate_def is_metric_improved_def is_pod_healthy_def py_and_def py_or_def)

section \<open>Policy client\<close>

lemma query_failed_Inl: "query_failed outcome \<Longrightarrow> \<exists>e. query_opa outcome = Inl e"
  by (cases outcome) (auto simp: query_opa_def)

text \<open>Any exception of the \<open>try\<close> block ends in the deny-by-default decision.\<close>

lemma evaluate_body_raises:
  "evaluate_body outcome = Inl e \<Longrightarrow> evaluate_remediation outcome = fail_closed e"
  by (simp add: evaluate_remediation_def)

text \<open>
  Claim C7: when the policy query fails (no response, a status outside 2xx, or a body
  that does not parse), \<open>evaluate_remediation\<close> returns the decision of its handler:
  \<open>allow\<close> is false, \<open>requires_approval\<close> is true and the reason is the error message.
  The function returns a decision on every outcome, so no exception leaves the call.
\<close>

theorem evaluate_remediation_fails_closed:
  assumes "query_failed outcome"
  shows "\<exists>e. evaluate_remediation outcome = fail_closed e
             \<and> allow (evaluate_remediation outcome) = JBool False
             \<and> requires_approval (evaluate_remediation outcome) = JBool True
             \<and> reason (evaluate_remediation outcome) = ''Policy evaluation error: '' @ e"
proof -
  from assms obtain e where "query_opa outcome = Inl e"
    using query_failed_Inl by blast
  then have "evaluate_remediation outcome = fail_closed e"
    by (simp add: evaluate_remediation_def evaluate_body_def)
  then show ?thesis
    by (auto simp: fail_closed_def)
qed

theorem evaluate_remediation_fails_closed_witness:
  "query_failed (HttpResponse 503 None)
   \<and> allow (evaluate_remediation (HttpResponse 503 None)) = JBool False
   \<and> requires_approval (evaluate_remediation (HttpResponse 503 None)) = JBool True"
  using evaluate_remediation_fails_closed [of "HttpResponse 503 None"] by auto

section \<open>Rules engine\<close>

lemma sort_desc_set: "set (sort_desc f xs) = set xs"
  by (simp add: sort_desc_def)

lemma sort_desc_Nil_iff: "sort_desc f xs = [] \<longleftrightarrow> xs = []"
  by (metis sort_desc_set set_empty)

lemma log_fold_ids:
  "evidence_ids (foldl (\<lambda>acc p. acc\<lparr>log_patterns := insert p (log_patterns acc)\<rparr>) s ps)
     = evidence_ids s"
  by (induction ps arbitrary: s) simp_all

lemma process_evidence_item_ids:
  "evidence_ids (process_evidence_item ev s) = evidence_ids s @ [ev_id ev]"
  by (simp add: process_evidence_item_def Let_def process_pod_evidence_def
      process_deploy_evidence_def process_image_evidence_def process_log_evidence_def
      process_metric_evidence_def process_node_evidence_def log_fold_ids
      split: option.splits)

lemma foldl_process_ids:
  "evidence_ids (foldl (\<lambda>s ev. process_evidence_item ev s) s evs)
     = evidence_ids s @ map ev_id evs"
  by (induction evs arbitrary: s) (simp_all add: process_evidence_item_ids)

lemma extract_signals_ids: "evidence_ids (extract_signals evs) = map ev_id evs"
  by (simp add: extract_signals_def foldl_process_ids init_signals_def)

lemma fire_rules_ids:
  "h \<in> set (fire_rules inc rs s) \<Longrightarrow> supporting_evidence_ids h = take 5 (evidence_ids s)"
  by (induction rs) (auto simp: Let_def create_hypothesis_def match_rule_def split: if_splits)

lemma fire_rules_none:
  "\<forall>r \<in> set rs. \<not> matched (match_rule r s) \<Longrightarrow> fire_rules inc rs s = []"
  by (induction rs) (simp_all add: Let_def)

lemma generate_hypotheses_nonempty: "generate_hypotheses inc evs \<noteq> []"
  by (simp add: generate_hypotheses_def generate_hypotheses_from_def Let_def)

lemmas rule_defs = crashloop_recent_deploy_def crashloop_no_change_def oom_killed_def
  oom_high_memory_def image_pull_failure_def node_failure_isolated_def hpa_maxed_def
  readiness_probe_failing_def config_error_def network_error_def

lemmas cond_defs = cond_def cond_vals_def cond_pats_def

lemma no_rule_fires_initially: "fire_rules inc DIAGNOSIS_RULES init_signals = []"
  by (simp add: DIAGNOSIS_RULES_def rule_defs match_rule_def Let_def check_condition_def
      cond_defs init_signals_def)

text \<open>
  Claim C10: every hypothesis \<open>generate_hypotheses\<close> returns, from a matched rule or
  the unknown fallback, has as \<open>supporting_evidence_ids\<close> the first five evidence ids
  of the input list, in input order.
\<close>

theorem supporting_evidence_ids_first_five:
  "\<forall>h \<in> set (generate_hypotheses inc evs). supporting_evidence_ids h = take 5 (map ev_id evs)"
  by (auto simp: generate_hypotheses_def generate_hypotheses_from_def Let_def sort_desc_set
      create_unknown_hypothesis_def extract_signals_ids dest: fire_rules_ids split: if_splits)

theorem supporting_evidence_ids_first_five_witness:
  "hd (generate_hypotheses ''inc-1''
        [\<lparr>ev_id = Some ''e1'', evidence_type = Some ''kubernetes_pod'',
          ev_data = empty_data\<lparr>d_terminated_reason := Some ''OOMKilled''\<rparr>\<rparr>,
         \<lparr>ev_id = Some ''e2'', evidence_type = Some ''log_signal'', ev_data = empty_data\<rparr>])
     \<in> set (generate_hypotheses ''inc-1''
        [\<lparr>ev_id = Some ''e1'', evidence_type = Some ''kubernetes_pod'',
          ev_data = empty_data\<lparr>d_terminated_reason := Some ''OOMKilled''\<rparr>\<rparr>,
         \<lparr>ev_id = Some ''e2'', evidence_type = Some ''log_signal'', ev_data = empty_data\<rparr>])
   \<and> supporting_evidence_ids (hd (generate_hypotheses ''inc-1''
        [\<lparr>ev_id = Some ''e1'', evidence_type = Some ''kubernetes_pod'',
          ev_data = empty_data\<lparr>d_terminated_reason := Some ''OOMKilled''\<rparr>\<rparr>,
         \<lparr>ev_id = Some ''e2'', evidence_type = Some ''log_signal'', ev_data = empty_data\<rparr>]))
     = [Some ''e1'', Some ''e2'']"
  (is "hd (generate_hypotheses ?i ?E) \<in> _ \<and> _")
proof -
  have mem: "hd (generate_hypotheses ?i ?E) \<in> set (generate_hypotheses ?i ?E)"
    by (rule hd_in_set) (rule generate_hypotheses_nonempty)
  have ids: "take 5 (map ev_id ?E) = [Some ''e1'', Some ''e2'']"
    by simp
  have "supporting_evidence_ids (hd (generate_hypotheses ?i ?E)) = take 5 (map ev_id ?E)"
    by (rule supporting_evidence_ids_first_five [of ?i ?E, THEN bspec, OF mem])
  with mem ids show ?thesis
    by (simp only: simp_thms)
qed

text \<open>
  Claim C8: for the empty evidence list, and whenever no rule of the catalog matches,
  \<open>generate_hypotheses\<close> returns exactly one hypothesis, the unknown one: category
  \<open>unknown\<close>, confidence 0.30, rank 1 and the generic list of recommended actions.
\<close>

theorem unknown_hypothesis_when_no_rule_fires:
  "generate_hypotheses inc [] = [create_unknown_hypothesis inc init_signals]
   \<and> ((\<forall>r \<in> set DIAGNOSIS_RULES. \<not> matched (match_rule r (extract_signals evs))) \<longrightarrow>
        generate_hypotheses inc evs = [create_unknown_hypothesis inc (extract_signals evs)])
   \<and> category (create_unknown_hypothesis inc s) = Some ''unknown''
   \<and> confidence (create_unknown_hypothesis inc s) = Some (30 / 100)
   \<and> rank (create_unknown_hypothesis inc s) = 1
   \<and> recommended_actions (create_unknown_hypothesis inc s) = generic_actions"
  by (simp add: generate_hypotheses_def generate_hypotheses_from_def Let_def sort_desc_Nil_iff
      extract_signals_def no_rule_fires_initially fire_rules_none create_unknown_hypothesis_def)

theorem unknown_hypothesis_when_no_rule_fires_witness:
  "filter (\<lambda>r. matched (match_rule r (extract_signals
        [\<lparr>ev_id = Some ''e1'', evidence_type = Some ''image_change'',
          ev_data = empty_data\<lparr>d_image_changed := True\<rparr>\<rparr>]))) DIAGNOSIS_RULES = []
   \<and> generate_hypotheses ''inc-1''
        [\<lparr>ev_id = Some ''e1'', evidence_type = Some ''image_change'',
          ev_data = empty_data\<lparr>d_image_changed := True\<rparr>\<rparr>]
     = [create_unknown_hypothesis ''inc-1'' (extract_signals
        [\<lparr>ev_id = Some ''e1'', evidence_type = Some ''image_change'',
          ev_data = empty_data\<lparr>d_image_changed := True\<rparr>\<rparr>])]"
  (is "?F = [] \<and> generate_hypotheses ?i ?E = _")
proof -
  have none: "?F = []"
    by code_simp
  then have "\<forall>r \<in> set DIAGNOSIS_RULES. \<not> matched (match_rule r (extract_signals ?E))"
    by (simp add: filter_empty_conv)
  with unknown_hypothesis_when_no_rule_fires [of ?i ?E] none show ?thesis
    by blast
qed

text \<open>
  Seven rules of the catalog fire on evidence the collectors can produce.
\<close>

lemma live_rules_can_fire:
  "matched (match_rule crashloop_recent_deploy (extract_signals
     [\<lparr>ev_id = Some ''e1'', evidence_type = Some ''kubernetes_pod'',
       ev_data = empty_data\<lparr>d_waiting_reason := Some ''CrashLoopBackOff''\<rparr>\<rparr>,
      \<lparr>ev_id = Some ''e2'', evidence_type = Some ''deploy_change'',
       ev_data = empty_data\<lparr>d_is_recent_change := True\<rparr>\<rparr>]))"
  "matched (match_rule crashloop_no_change (extract_signals
     [\<lparr>ev_id = Some ''e1'', evidence_type = Some ''kubernetes_pod'',
       ev_data = empty_data\<lparr>d_waiting_reason := Some ''CrashLoopBackOff''\<rparr>\<rparr>]))"
  "matched (match_rule oom_killed (extract_signals
     [\<lparr>ev_id = Some ''e1'', evidence_type = Some ''kubernetes_pod'',
       ev_data = empty_data\<lparr>d_terminated_reason := Some ''OOMKilled''\<rparr>\<rparr>]))"
  "matched (match_rule oom_high_memory (extract_signals
     [\<lparr>ev_id = Some ''e1'', evidence_type = Some ''metric_signal'',
       ev_data = empty_data\<lparr>d_query_name := Some ''memory_usage_percent'',
                              d_is_anomalous := True, d_current_value := Some 95\<rparr>\<rparr>]))"
  "matched (match_rule image_pull_failure (extract_signals
     [\<lparr>ev_id = Some ''e1'', evidence_type = Some ''kubernetes_pod'',
       ev_data = empty_data\<lparr>d_waiting_reason := Some ''ImagePullBackOff''\<rparr>\<rparr>]))"
  "matched (match_rule hpa_maxed (extract_signals
     [\<lparr>ev_id = Some ''e1'', evidence_type = Some ''metric_signal'',
       ev_data = empty_data\<lparr>d_query_name := Some ''hpa_at_max'', d_current_value := Some 1\<rparr>\<rparr>,
      \<lparr>ev_id = Some ''e2'', evidence_type = Some ''metric_signal'',
       ev_data = empty_data\<lparr>d_query_name := Some ''latency_p99'', d_current_value := Some 3\<rparr>\<rparr>]))"
  "matched (match_rule config_error (extract_signals
     [\<lparr>ev_id = Some ''e1'', evidence_type = Some ''kubernetes_pod'',
       ev_data = empty_data\<lparr>d_terminated_reason := Some ''ContainerCannotRun''\<rparr>\<rparr>]))"
  by code_simp+

text \<open>
  Claim C5 says that each of the ten catalog rules fires on some evidence list. Three
  rules carry a condition type that \<open>_check_condition\<close> has no entry for
  (\<open>multiple_pods_same_node\<close>, \<open>pod_not_ready\<close> and \<open>readiness_probe_failing\<close>,
  \<open>network_errors_high\<close>), so that condition never matches: on every evidence list
  \<open>node_failure_isolated\<close>, \<open>readiness_probe_failing\<close> and \<open>network_error\<close> do not fire.
\<close>

theorem dead_rules_never_fire:
  "\<not> matched (match_rule node_failure_isolated (extract_signals evs))
   \<and> \<not> matched (match_rule readiness_probe_failing (extract_signals evs))
   \<and> \<not> matched (match_rule network_error (extract_signals evs))"
  by (simp add: rule_defs match_rule_def Let_def check_condition_def cond_defs)






section \<open>Blast radius\<close>

text \<open>Rounding leaves a number with at most \<open>n\<close> decimals unchanged.\<close>

lemma round_half_even_of_int: "round_half_even (of_int m) = m"
  by (simp add: round_half_even_def)

lemma py_round_exact:
  assumes "x * 10 ^ n = of_int m"
  shows "py_round x n = x"
proof -
  have "py_round x n = of_int m / 10 ^ n"
    by (simp add: py_round_def assms round_half_even_of_int)
  also have "\<dots> = x"
    using assms [symmetric] by simp
  finally show ?thesis .
qed

lemma blast_score_hundredths:
  fixes k :: int
  assumes "mult \<in> {1, 2, 25 / 10, 5, 3 :: rat}" and "b = of_int k \<or> b = of_int k * (15 / 10)"
  shows "\<exists>m. min (b * mult) 100 * 10 ^ 2 = (of_int m :: rat)"
proof -
  have "\<exists>j. b * mult * 100 = (of_int j :: rat)"
  proof -
    from assms(2) have "b * 2 = of_int (2 * k) \<or> b * 2 = of_int (3 * k)" by auto
    then obtain i where i: "b * 2 = of_int i" by blast
    from assms(1) have "\<exists>q. mult * 50 = (of_int q :: rat)"
      by (auto intro: exI [of _ 50] exI [of _ 100] exI [of _ 125] exI [of _ 250] exI [of _ 150])
    then obtain q where q: "mult * 50 = of_int q" by blast
    have "b * mult * 100 = (b * 2) * (mult * 50)" by simp
    also have "\<dots> = of_int (i * q)" by (simp add: i q)
    finally show ?thesis by blast
  qed
  then obtain j where j: "b * mult * 100 = of_int j" by blast
  show ?thesis
  proof (cases "b * mult \<le> 100")
    case True
    then have "min (b * mult) 100 * 10 ^ 2 = of_int j" using j by (simp add: min_def)
    then show ?thesis by blast
  next
    case False
    then have "min (b * mult) 100 * 10 ^ 2 = (of_int 10000 :: rat)" by (simp add: min_def)
    then show ?thesis by blast
  qed
qed

lemma env_multiplier_range:
  "(case env_multiplier e of None \<Rightarrow> 3 | Some m \<Rightarrow> m) \<in> {1, 2, 25 / 10, 5, 3 :: rat}"
  by (simp add: env_multiplier_def)

lemma blast_result_eq:
  "blast_result cfg ns pods deps =
     BlastRadius
       (min ((if ns \<in> critical_namespaces then of_int (pods * 5 + deps * 10) * (15 / 10)
              else of_int (pods * 5 + deps * 10))
             * (case env_multiplier (lower (app_env cfg)) of None \<Rightarrow> 3 | Some m \<Rightarrow> m)) 100)
       pods deps (lower (app_env cfg))
       (case env_multiplier (lower (app_env cfg)) of None \<Rightarrow> 3 | Some m \<Rightarrow> m)
       (min ((if ns \<in> critical_namespaces then of_int (pods * 5 + deps * 10) * (15 / 10)
              else of_int (pods * 5 + deps * 10))
             * (case env_multiplier (lower (app_env cfg)) of None \<Rightarrow> 3 | Some m \<Rightarrow> m)) 100
        < remediation_max_blast_radius cfg)"
proof -
  let ?b = "(if ns \<in> critical_namespaces then of_int (pods * 5 + deps * 10) * (15 / 10)
              else of_int (pods * 5 + deps * 10)) :: rat"
  let ?m = "(case env_multiplier (lower (app_env cfg)) of None \<Rightarrow> 3 | Some m \<Rightarrow> m) :: rat"
  have "?b = of_int (pods * 5 + deps * 10) \<or> ?b = of_int (pods * 5 + deps * 10) * (15 / 10)"
    by simp
  from blast_score_hundredths [OF env_multiplier_range this]
  obtain m where "min (?b * ?m) 100 * 10 ^ 2 = of_int m" by blast
  then have r: "py_round (min (?b * ?m) 100) 2 = min (?b * ?m) 100"
    by (rule py_round_exact)
  show ?thesis
    unfolding blast_result_def Let_def by (simp only: r)
qed


lemma calculate_blast_radius_cases:
  "calculate_blast_radius cfg inc (Some e) rd = BlastFailure 100 e False"
  "calculate_blast_radius cfg \<lparr>inc_namespace = ns, inc_service = Some (c # svc)\<rparr> None
     (OtherException e) = BlastFailure 100 e False"
  "calculate_blast_radius cfg \<lparr>inc_namespace = ns, inc_service = Some (c # svc)\<rparr> None
     (Deployment replicas) =
       blast_result cfg ns (case replicas of None \<Rightarrow> 1 | Some n \<Rightarrow> if n = 0 then 1 else n) 1"
  "calculate_blast_radius cfg \<lparr>inc_namespace = ns, inc_service = Some (c # svc)\<rparr> None
     (ApiException e) = blast_result cfg ns 0 0"
  "calculate_blast_radius cfg \<lparr>inc_namespace = ns, inc_service = None\<rparr> None rd
     = blast_result cfg ns 0 0"
  by (simp_all add: calculate_blast_radius_def py_or_str_def)

text \<open>
  Claim C6, amended: the score is \<open>min(base \<cdot> envMultiplier, 100)\<close> with
  \<open>base = 5 \<cdot> affectedPods + 10 \<cdot> affectedDeployments\<close>, multiplied by 1.5 exactly for the
  namespaces default, platform and core-services, with multiplier 1.0 for dev, 2.0 for
  staging, 2.5 for uat, 5.0 for prod and 3.0 otherwise (on the lower-cased \<open>app_env\<close>);
  \<open>is_acceptable\<close> holds iff the score is below \<open>remediation_max_blast_radius\<close>. The
  counts are the replicas (1 when unset or 0) and 1 when the deployment is read, and
  0 and 0 when the incident names no service or the read raises an \<open>ApiException\<close>,
  which the source swallows. When loading the cluster configuration fails, or the read
  raises any other exception, the result is score 100 with \<open>is_acceptable = false\<close>.
  Three replicas of one deployment in namespace default under staging score 75.
\<close>

theorem blast_radius_score:
  "score (blast_result cfg ns pods deps) =
     min ((if ns \<in> {''default'', ''platform'', ''core-services''} then 15 / 10 else 1)
          * of_int (5 * pods + 10 * deps)
          * (if lower (app_env cfg) = ''dev'' then 1
             else if lower (app_env cfg) = ''staging'' then 2
             else if lower (app_env cfg) = ''uat'' then 25 / 10
             else if lower (app_env cfg) = ''prod'' then 5
             else 3)) 100
   \<and> is_acceptable (blast_result cfg ns pods deps)
       = (score (blast_result cfg ns pods deps) < remediation_max_blast_radius cfg)
   \<and> calculate_blast_radius cfg \<lparr>inc_namespace = ns, inc_service = Some (c # svc)\<rparr> None
        (Deployment replicas)
       = blast_result cfg ns (case replicas of None \<Rightarrow> 1 | Some n \<Rightarrow> if n = 0 then 1 else n) 1
   \<and> calculate_blast_radius cfg \<lparr>inc_namespace = ns, inc_service = None\<rparr> None rd
       = blast_result cfg ns 0 0
   \<and> calculate_blast_radius cfg \<lparr>inc_namespace = ns, inc_service = Some (c # svc)\<rparr> None
        (ApiException e) = blast_result cfg ns 0 0
   \<and> calculate_blast_radius cfg inc (Some e) rd = BlastFailure 100 e False
   \<and> calculate_blast_radius cfg \<lparr>inc_namespace = ns, inc_service = Some (c # svc)\<rparr> None
        (OtherException e) = BlastFailure 100 e False
   \<and> score (calculate_blast_radius (cfg\<lparr>app_env := ''staging''\<rparr>)
        \<lparr>inc_namespace = ''default'', inc_service = Some (c # svc)\<rparr> None (Deployment (Some 3)))
       = 75"
proof -
  have sc: "score (blast_result cfg ns pods deps) =
     min ((if ns \<in> {''default'', ''platform'', ''core-services''} then 15 / 10 else 1)
          * of_int (5 * pods + 10 * deps)
          * (if lower (app_env cfg) = ''dev'' then 1
             else if lower (app_env cfg) = ''staging'' then 2
             else if lower (app_env cfg) = ''uat'' then 25 / 10
             else if lower (app_env cfg) = ''prod'' then 5
             else 3)) 100" for cfg ns pods deps
    by (simp add: blast_result_eq critical_namespaces_def env_multiplier_def mult.commute add.commute)
  have acc: "is_acceptable (blast_result cfg ns pods deps)
       = (score (blast_result cfg ns pods deps) < remediation_max_blast_radius cfg)"
    by (simp add: blast_result_eq)
  have low: "lower ''staging'' = ''staging''"
    by code_simp
  have ex: "score (calculate_blast_radius (cfg\<lparr>app_env := ''staging''\<rparr>)
        \<lparr>inc_namespace = ''default'', inc_service = Some (c # svc)\<rparr> None (Deployment (Some 3)))
       = 75"
    by (simp add: calculate_blast_radius_cases sc low)
  from sc acc ex show ?thesis
    by (simp add: calculate_blast_radius_cases)
qed

text \<open>
  Claim C6 as stated returns score 100 and \<open>is_acceptable = false\<close> on any failure of
  the cluster query. When the deployment read raises an \<open>ApiException\<close> the source
  continues with both counts at 0: the score is 0 and \<open>is_acceptable\<close> is true.
\<close>

theorem blast_radius_api_exception_counterexample:
  "calculate_blast_radius
     \<lparr>kubeconfig = None, app_env = ''staging'', remediation_max_blast_radius = 50,
      max_metric_points = 500\<rparr>
     \<lparr>inc_namespace = ''default'', inc_service = Some ''api''\<rparr> None
     (ApiException ''(500) Internal Server Error'')
   = BlastRadius 0 0 0 ''staging'' 2 True"
  by code_simp

section \<open>Metrics collector\<close>

lemma parse_metric_value_finite:
  "parse_metric_value to_float ts val lbls = Some m \<Longrightarrow> mv_value m \<noteq> PosInf \<and> mv_value m \<noteq> NegInf"
  by (auto simp: parse_metric_value_def split: option.splits if_splits)

lemma parse_metric_value_discards:
  "to_float val = Some PosInf \<or> to_float val = Some NegInf \<Longrightarrow>
   parse_metric_value to_float ts val lbls = None"
  by (auto simp: parse_metric_value_def)

lemma parse_series_finite:
  "m \<in> set (parse_series to_float r) \<Longrightarrow> mv_value m \<noteq> PosInf \<and> mv_value m \<noteq> NegInf"
  by (auto simp: parse_series_def List.map_filter_def dest: parse_metric_value_finite)

lemma merged_values_finite:
  "m \<in> set (merged_values to_float results) \<Longrightarrow> mv_value m \<noteq> PosInf \<and> mv_value m \<noteq> NegInf"
  by (auto simp: merged_values_def dest: parse_series_finite)

lemma length_stride:
  "0 < k \<Longrightarrow> length (stride k xs) = (length xs + k - 1) div k"
proof (induction k xs rule: stride.induct)
  case (1 k)
  then show ?case by simp
next
  case (2 k x xs)
  show ?case
  proof (cases "k - 1 \<le> length xs")
    case True
    with 2 have "length (stride k (x # xs)) = Suc ((length xs - (k - 1) + k - 1) div k)" by simp
    also from True 2(2) have "length xs - (k - 1) + k - 1 = length xs" by simp
    also from 2(2) have "Suc (length xs div k) = (length (x # xs) + k - 1) div k" by simp
    finally show ?thesis .
  next
    case False
    with 2 have "length (stride k (x # xs)) = Suc ((k - 1) div k)" by simp
    also from 2(2) have "(k - 1) div k = 0" by simp
    also from False 2(2) have "Suc 0 = (length (x # xs) + k - 1) div k" by simp
    finally show ?thesis .
  qed
qed

lemma nth_stride:
  "0 < k \<Longrightarrow> i < length (stride k xs) \<Longrightarrow> stride k xs ! i = xs ! (i * k)"
proof (induction k xs arbitrary: i rule: stride.induct)
  case (1 k)
  then show ?case by simp
next
  case (2 k x xs)
  show ?case
  proof (cases i)
    case 0
    then show ?thesis by simp
  next
    case (Suc j)
    with 2 have j: "j < length (stride k (drop (k - 1) xs))" by simp
    with 2 have "stride k (drop (k - 1) xs) ! j = drop (k - 1) xs ! (j * k)" by simp
    moreover from j have "drop (k - 1) xs \<noteq> []" by auto
    then have "k - 1 \<le> length xs" by simp
    ultimately have "stride k (drop (k - 1) xs) ! j = xs ! (k - 1 + j * k)" by simp
    moreover from 2(2) have "(x # xs) ! (Suc j * k) = xs ! (k - 1 + j * k)"
      by (cases k) (simp_all add: ac_simps)
    ultimately show ?thesis using Suc by simp
  qed
qed

lemma decimate_within: "int (length xs) \<le> mp \<Longrightarrow> decimate mp xs = Inr xs"
  by (simp add: decimate_def)

lemma decimate_beyond:
  assumes "0 < mp" and "mp < int (length xs)"
  shows "decimate mp xs = Inr (stride (length xs div nat mp) xs)" and "1 \<le> length xs div nat mp"
proof -
  from assms have le: "nat mp \<le> length xs" and pos: "0 < nat mp" by simp_all
  then show "1 \<le> length xs div nat mp"
    by (simp add: Suc_le_eq div_greater_zero_iff)
  have "int (length xs) div mp = int (length xs div nat mp)"
    using assms(1) by (simp add: zdiv_int)
  moreover have "0 < length xs div nat mp"
    using le pos by (simp add: div_greater_zero_iff)
  ultimately show "decimate mp xs = Inr (stride (length xs div nat mp) xs)"
    using assms by (simp add: decimate_def slice_step_def)
qed


text \<open>
  Claim C9: a sample whose value is \<open>+\<infinity>\<close> or \<open>\<minus>\<infinity>\<close> is discarded, so the merged series
  holds none; a merged series whose length equals \<open>max_metric_points\<close> is not
  decimated; and one that is longer (for a positive \<open>max_metric_points\<close>) is replaced
  by its elements at the indices \<open>0, k, 2k, \<dots>\<close> with stride
  \<open>k = floor(length / max_metric_points) \<ge> 1\<close>, before \<open>_calculate_stats\<close> is applied.
\<close>

theorem metrics_discard_infinite_and_decimate:
  "(\<forall>m \<in> set (merged_values to_float results). mv_value m \<noteq> PosInf \<and> mv_value m \<noteq> NegInf)
   \<and> (to_float val = Some PosInf \<or> to_float val = Some NegInf \<longrightarrow>
        parse_metric_value to_float ts val lbls = None)
   \<and> (int (length xs) = mp \<longrightarrow> decimate mp xs = Inr xs)
   \<and> (0 < mp \<and> mp < int (length xs) \<longrightarrow>
        decimate mp xs = Inr (stride (length xs div nat mp) xs)
        \<and> 1 \<le> length xs div nat mp
        \<and> length (stride (length xs div nat mp) xs)
            = (length xs + length xs div nat mp - 1) div (length xs div nat mp)
        \<and> (\<forall>i < length (stride (length xs div nat mp) xs).
              stride (length xs div nat mp) xs ! i = xs ! (i * (length xs div nat mp))))
   \<and> process_results to_float mp results
       = (case decimate mp (merged_values to_float results) of
            Inl e \<Rightarrow> Inl e | Inr vs \<Rightarrow> Inr (calculate_stats vs))"
proof -
  have a: "\<forall>m \<in> set (merged_values to_float results). mv_value m \<noteq> PosInf \<and> mv_value m \<noteq> NegInf"
    using merged_values_finite by blast
  have b: "to_float val = Some PosInf \<or> to_float val = Some NegInf \<longrightarrow>
        parse_metric_value to_float ts val lbls = None"
    using parse_metric_value_discards by blast
  have c: "int (length xs) = mp \<longrightarrow> decimate mp xs = Inr xs"
    by (simp add: decimate_within)
  have d: "0 < mp \<and> mp < int (length xs) \<longrightarrow>
        decimate mp xs = Inr (stride (length xs div nat mp) xs)
        \<and> 1 \<le> length xs div nat mp
        \<and> length (stride (length xs div nat mp) xs)
            = (length xs + length xs div nat mp - 1) div (length xs div nat mp)
        \<and> (\<forall>i < length (stride (length xs div nat mp) xs).
              stride (length xs div nat mp) xs ! i = xs ! (i * (length xs div nat mp)))"
  proof
    assume h: "0 < mp \<and> mp < int (length xs)"
    then have hp: "0 < mp" and hl: "mp < int (length xs)"
      by simp_all
    have 1: "decimate mp xs = Inr (stride (length xs div nat mp) xs)"
      and 2: "1 \<le> length xs div nat mp"
      by (rule decimate_beyond [OF hp hl])+
    from 2 have pos: "0 < length xs div nat mp" by simp
    from 1 2 length_stride [OF pos] nth_stride [OF pos]
    show "decimate mp xs = Inr (stride (length xs div nat mp) xs)
        \<and> 1 \<le> length xs div nat mp
        \<and> length (stride (length xs div nat mp) xs)
            = (length xs + length xs div nat mp - 1) div (length xs div nat mp)
        \<and> (\<forall>i < length (stride (length xs div nat mp) xs).
              stride (length xs div nat mp) xs ! i = xs ! (i * (length xs div nat mp)))"
      by blast
  qed
  have e: "process_results to_float mp results
       = (case decimate mp (merged_values to_float results) of
            Inl e \<Rightarrow> Inl e | Inr vs \<Rightarrow> Inr (calculate_stats vs))"
    by (simp add: process_results_def)
  from a b c d e show ?thesis by blast
qed

theorem metrics_discard_infinite_and_decimate_witness:
  "hd (merged_values (\<lambda>s. if s = ''+Inf'' then Some PosInf else if s = ''1'' then Some (Finite 1) else None)
         [\<lparr>metric = [], series_values = [(10, ''1''), (20, ''+Inf'')]\<rparr>])
     \<in> set (merged_values (\<lambda>s. if s = ''+Inf'' then Some PosInf else if s = ''1'' then Some (Finite 1) else None)
         [\<lparr>metric = [], series_values = [(10, ''1''), (20, ''+Inf'')]\<rparr>])
   \<and> mv_value (hd (merged_values (\<lambda>s. if s = ''+Inf'' then Some PosInf else if s = ''1'' then Some (Finite 1) else None)
         [\<lparr>metric = [], series_values = [(10, ''1''), (20, ''+Inf'')]\<rparr>])) \<noteq> PosInf
   \<and> parse_metric_value (\<lambda>s. if s = ''+Inf'' then Some PosInf else if s = ''1'' then Some (Finite 1) else None)
        20 ''+Inf'' [] = None
   \<and> int (length [10, 20 :: nat]) = 2 \<and> decimate 2 [10, 20 :: nat] = Inr [10, 20]
   \<and> (0 :: int) < 2 \<and> 2 < int (length [1, 2, 3, 4, 5 :: nat])
   \<and> decimate 2 [1, 2, 3, 4, 5 :: nat] = Inr [1, 3, 5]"
  (is "hd (merged_values ?tf ?R) \<in> _ \<and> _")
proof -
  note t1 = metrics_discard_infinite_and_decimate [of ?tf ?R "''+Inf''" 20 "[]" "[10, 20 :: nat]" 2]
  note t2 = metrics_discard_infinite_and_decimate [of ?tf ?R "''+Inf''" 20 "[]" "[1, 2, 3, 4, 5 :: nat]" 2]
  have ne: "merged_values ?tf ?R \<noteq> []" by code_simp
  then have mem: "hd (merged_values ?tf ?R) \<in> set (merged_values ?tf ?R)" by (rule hd_in_set)
  with t1 have fin: "mv_value (hd (merged_values ?tf ?R)) \<noteq> PosInf" by blast
  have inf: "?tf ''+Inf'' = Some PosInf \<or> ?tf ''+Inf'' = Some NegInf" by simp
  with t1 have disc: "parse_metric_value ?tf 20 ''+Inf'' [] = None" by blast
  have l1: "int (length [10, 20 :: nat]) = 2" by simp
  with t1 have d1: "decimate 2 [10, 20 :: nat] = Inr [10, 20]" by blast
  have l2: "(0 :: int) < 2 \<and> 2 < int (length [1, 2, 3, 4, 5 :: nat])" by simp
  with t2 have "decimate 2 [1, 2, 3, 4, 5 :: nat]
      = Inr (stride (length [1, 2, 3, 4, 5 :: nat] div nat 2) [1, 2, 3, 4, 5])" by blast
  moreover have "stride (length [1, 2, 3, 4, 5 :: nat] div nat 2) [1, 2, 3, 4, 5 :: nat] = [1, 3, 5]"
    by code_simp
  ultimately have d2: "decimate 2 [1, 2, 3, 4, 5 :: nat] = Inr [1, 3, 5]" by simp
  from mem fin disc l1 d1 l2 d2 show ?thesis by blast
qed

section \<open>Hypothesis ranker\<close>












section \<open>Alert normaliser\<close>

lemma alertmanager_fingerprint:
  "fingerprint (normalize_alertmanager H a)
     = take 32 (H (fingerprint_key ''alertmanager''
          (get_default (alert_labels a) ''alertname'' ''Unknown Alert'')
          (namespace (normalize_alertmanager H a))
          (or_empty (py_or_str (service (normalize_alertmanager H a)) (alert_labels a ''pod'')))))"
  by (simp add: normalize_alertmanager_def Let_def generate_fingerprint_def
      alertmanager_fingerprint_service_def)

text \<open>
  Claim C2, amended: the fingerprint is the first 32 characters of the SHA-256 hex digest
  of \<open><source>:<alertname>:<namespace>:<service>\<close>, where for Grafana and Prometheus
  alerts an absent service is the empty string, and for Alertmanager alerts an absent
  service is replaced by the pod label, and by the empty string when there is no pod
  either. Hence two Alertmanager alerts that agree on alertname, namespace and on
  \<open>service or pod\<close> have the same fingerprint, whatever their other labels; when the
  service is present the pod label does not matter.
\<close>

theorem fingerprint_of_normalized_alert:
  "fingerprint (normalize_alertmanager H a)
     = take 32 (H (fingerprint_key ''alertmanager''
          (get_default (alert_labels a) ''alertname'' ''Unknown Alert'')
          (namespace (normalize_alertmanager H a))
          (or_empty (py_or_str (service (normalize_alertmanager H a)) (alert_labels a ''pod'')))))
   \<and> fingerprint (normalize_grafana H a p)
     = take 32 (H (fingerprint_key ''grafana'' (grafana_alertname a p)
          (namespace (normalize_grafana H a p)) (or_empty (service (normalize_grafana H a p)))))
   \<and> fingerprint (normalize_prometheus H a)
     = take 32 (H (fingerprint_key ''prometheus''
          (get_default (alert_labels a) ''alertname'' ''Prometheus Alert'')
          (namespace (normalize_prometheus H a)) (or_empty (service (normalize_prometheus H a)))))
   \<and> (get_default (alert_labels a) ''alertname'' ''Unknown Alert''
        = get_default (alert_labels b) ''alertname'' ''Unknown Alert''
      \<and> namespace (normalize_alertmanager H a) = namespace (normalize_alertmanager H b)
      \<and> py_or_str (service (normalize_alertmanager H a)) (alert_labels a ''pod'')
        = py_or_str (service (normalize_alertmanager H b)) (alert_labels b ''pod'')
      \<longrightarrow> fingerprint (normalize_alertmanager H a) = fingerprint (normalize_alertmanager H b))"
proof -
  have g: "fingerprint (normalize_grafana H a p)
     = take 32 (H (fingerprint_key ''grafana'' (grafana_alertname a p)
          (namespace (normalize_grafana H a p)) (or_empty (service (normalize_grafana H a p)))))"
    by (simp add: normalize_grafana_def Let_def generate_fingerprint_def)
  have pr: "fingerprint (normalize_prometheus H a)
     = take 32 (H (fingerprint_key ''prometheus''
          (get_default (alert_labels a) ''alertname'' ''Prometheus Alert'')
          (namespace (normalize_prometheus H a)) (or_empty (service (normalize_prometheus H a)))))"
    by (simp add: normalize_prometheus_def Let_def generate_fingerprint_def)
  have eq: "get_default (alert_labels a) ''alertname'' ''Unknown Alert''
        = get_default (alert_labels b) ''alertname'' ''Unknown Alert''
      \<and> namespace (normalize_alertmanager H a) = namespace (normalize_alertmanager H b)
      \<and> py_or_str (service (normalize_alertmanager H a)) (alert_labels a ''pod'')
        = py_or_str (service (normalize_alertmanager H b)) (alert_labels b ''pod'')
      \<longrightarrow> fingerprint (normalize_alertmanager H a) = fingerprint (normalize_alertmanager H b)"
    by (simp only: alertmanager_fingerprint) simp
  from alertmanager_fingerprint [of H a] g pr eq show ?thesis
    by blast
qed

theorem fingerprint_of_normalized_alert_witness:
  "get_default (map_of [(''alertname'', ''HighCPU''), (''namespace'', ''prod''),
          (''service'', ''api''), (''pod'', ''api-1''), (''severity'', ''critical'')])
        ''alertname'' ''Unknown Alert''
     = get_default (map_of [(''alertname'', ''HighCPU''), (''namespace'', ''prod''),
          (''service'', ''api''), (''pod'', ''api-2'')])
        ''alertname'' ''Unknown Alert''
   \<and> namespace (normalize_alertmanager id
        \<lparr>alert_labels = map_of [(''alertname'', ''HighCPU''), (''namespace'', ''prod''),
            (''service'', ''api''), (''pod'', ''api-1''), (''severity'', ''critical'')],
         alert_annotations = map_of [], alert_alertname = None\<rparr>)
     = namespace (normalize_alertmanager id
        \<lparr>alert_labels = map_of [(''alertname'', ''HighCPU''), (''namespace'', ''prod''),
            (''service'', ''api''), (''pod'', ''api-2'')],
         alert_annotations = map_of [], alert_alertname = None\<rparr>)
   \<and> fingerprint (normalize_alertmanager id
        \<lparr>alert_labels = map_of [(''alertname'', ''HighCPU''), (''namespace'', ''prod''),
            (''service'', ''api''), (''pod'', ''api-1''), (''severity'', ''critical'')],
         alert_annotations = map_of [], alert_alertname = None\<rparr>)
     = fingerprint (normalize_alertmanager id
        \<lparr>alert_labels = map_of [(''alertname'', ''HighCPU''), (''namespace'', ''prod''),
            (''service'', ''api''), (''pod'', ''api-2'')],
         alert_annotations = map_of [], alert_alertname = None\<rparr>)"
  (is "?n1 = ?n2 \<and> namespace (normalize_alertmanager id ?A) = namespace (normalize_alertmanager id ?B) \<and> _")
proof -
  note imp = fingerprint_of_normalized_alert [where H = id and a = ?A and b = ?B,
      THEN conjunct2, THEN conjunct2, THEN conjunct2]
  have n: "?n1 = ?n2"
    by (simp add: get_default_def)
  have n': "get_default (alert_labels ?A) ''alertname'' ''Unknown Alert''
      = get_default (alert_labels ?B) ''alertname'' ''Unknown Alert''"
    by (simp add: get_default_def)
  have ns: "namespace (normalize_alertmanager id ?A) = namespace (normalize_alertmanager id ?B)"
    by (simp add: normalize_alertmanager_def Let_def get_default_def)
  have sv: "py_or_str (service (normalize_alertmanager id ?A)) (alert_labels ?A ''pod'')
        = py_or_str (service (normalize_alertmanager id ?B)) (alert_labels ?B ''pod'')"
    by (simp add: normalize_alertmanager_def Let_def alertmanager_service_def py_or_str_def)
  from imp n' ns sv
  have "fingerprint (normalize_alertmanager id ?A) = fingerprint (normalize_alertmanager id ?B)"
    by blast
  with n ns show ?thesis
    by blast
qed

text \<open>
  Claim C2 as stated hashes \<open>alertmanager:HighCPU:prod:\<close> for an Alertmanager alert
  named HighCPU in namespace prod without a service, whatever its pod label. With the
  digest function replaced by the identity the fingerprint shows the string that is
  hashed: for the pods \<open>api-1\<close> and \<open>api-2\<close> the two alerts, which agree on source,
  alertname, namespace and (absent) service, are given different keys.
\<close>

theorem fingerprint_uses_pod_counterexample:
  "service (normalize_alertmanager id
        \<lparr>alert_labels = map_of [(''alertname'', ''HighCPU''), (''namespace'', ''prod''), (''pod'', ''api-1'')],
         alert_annotations = map_of [], alert_alertname = None\<rparr>) = None
   \<and> service (normalize_alertmanager id
        \<lparr>alert_labels = map_of [(''alertname'', ''HighCPU''), (''namespace'', ''prod''), (''pod'', ''api-2'')],
         alert_annotations = map_of [], alert_alertname = None\<rparr>) = None
   \<and> fingerprint (normalize_alertmanager id
        \<lparr>alert_labels = map_of [(''alertname'', ''HighCPU''), (''namespace'', ''prod''), (''pod'', ''api-1'')],
         alert_annotations = map_of [], alert_alertname = None\<rparr>) = ''alertmanager:HighCPU:prod:api-1''
   \<and> fingerprint (normalize_alertmanager id
        \<lparr>alert_labels = map_of [(''alertname'', ''HighCPU''), (''namespace'', ''prod''), (''pod'', ''api-2'')],
         alert_annotations = map_of [], alert_alertname = None\<rparr>) = ''alertmanager:HighCPU:prod:api-2''
   \<and> fingerprint_key ''alertmanager'' ''HighCPU'' ''prod'' [] = ''alertmanager:HighCPU:prod:''"
  by (simp add: normalize_alertmanager_def Let_def alertmanager_service_def py_or_str_def
      get_default_def generate_fingerprint_def fingerprint_key_def
      alertmanager_fingerprint_service_def or_empty_def)

end
